theory Spec2Isabelle
  imports Complex_Main "HOL-Library.Word" "HOL-Library.AList"
begin

section \<open>Data model\<close>

text \<open>
  The image-generation bridge is TypeScript. Identifiers, paths, timestamps and rendered
  numbers are modelled as \<open>string\<close>; free text written by the user (prompt, context) is a
  JavaScript string proper, a list of UTF-16 code units, because the header sanitizer
  inspects code units beyond ASCII. A currency amount (a JavaScript number, a SQLite REAL)
  is an exact rational: IEEE rounding is not part of this model.
\<close>

type_synonym jsstring = "16 word list"

definition ascii :: "string \<Rightarrow> jsstring" where
  "ascii s = map of_char s"

datatype errno = ENOENT | EISDIR | ENOTDIR | ENOTEMPTY | EEXIST

datatype error =
    GenerationNotFound string
  | InvalidImageIndex int
  | PreviewFileNotFound string
  | TypeError
  | DatabaseNotInitialized
  | SqlConstraintFailed
  | FsError errno string
  | ProviderFailed string
  | UploadFailed string

text \<open>db/generations.ts: the interfaces GenerationImage, Generation and CostSummary. A row
  of the table \<open>generations\<close> has every column of Generation; the \<open>images\<close> property exists
  only on the object handed to callers.\<close>

record GenerationImage =
  generation_id :: string
  index_num :: int
  preview_url :: string
  width :: "int option"
  height :: "int option"
  seed :: "int option"

record GenerationRow =
  id_gen :: string
  prompt :: jsstring
  negative_prompt :: "jsstring option"
  context_hint :: "jsstring option"
  model :: string
  provider :: string
  count :: int
  aspect_ratio :: string
  cost :: rat
  created_at :: string
  selected_index :: "int option"
  selected_at :: "string option"
  storage_key :: "string option"
  public_url :: "string option"

record Generation = GenerationRow +
  images :: "GenerationImage list option"

record CostSummary =
  total_cost :: rat
  by_provider :: "(string \<times> rat) list"
  by_model :: "(string \<times> rat) list"
  generation_count :: nat

section \<open>The generation ledger (db/generations.ts)\<close>

text \<open>The SQLite database held in memory: the two tables, rows in insertion order. The
  store's handle is \<open>None\<close> while no database is open; \<open>ensureInit\<close> throws then.\<close>

record ledger =
  generations :: "GenerationRow list"
  image_rows :: "GenerationImage list"

type_synonym GenerationStore = "ledger option"

definition ensureInit :: "GenerationStore \<Rightarrow> error + ledger" where
  "ensureInit store = (case store of None \<Rightarrow> Inl DatabaseNotInitialized | Some db \<Rightarrow> Inr db)"

text \<open>SQLite compares TEXT values bytewise; \<open>created_at >= ?\<close> is \<open>text_le bound created_at\<close>.\<close>

fun text_le :: "string \<Rightarrow> string \<Rightarrow> bool" where
  "text_le [] ys = True"
| "text_le (x # xs) [] = False"
| "text_le (x # xs) (y # ys) =
     (if (of_char x :: nat) < of_char y then True
      else if (of_char y :: nat) < of_char x then False
      else text_le xs ys)"

definition sql_where :: "string option \<Rightarrow> GenerationRow list \<Rightarrow> GenerationRow list" where
  "sql_where since rows =
     (case since of None \<Rightarrow> rows | Some bound \<Rightarrow> filter (\<lambda>g. text_le bound (created_at g)) rows)"

text \<open>\<open>SUM\<close> over no rows is NULL; \<open>COALESCE(x, 0)\<close> turns NULL into 0.\<close>

definition sql_sum :: "rat list \<Rightarrow> rat option" where
  "sql_sum xs = (if xs = [] then None else Some (sum_list xs))"

definition coalesce :: "rat option \<Rightarrow> rat \<Rightarrow> rat" where
  "coalesce x d = (case x of None \<Rightarrow> d | Some v \<Rightarrow> v)"

text \<open>\<open>SELECT key, SUM(cost) ... GROUP BY key\<close>: one result row per distinct key, none when
  no row matches.\<close>

definition sql_group_sum :: "(GenerationRow \<Rightarrow> string) \<Rightarrow> GenerationRow list \<Rightarrow> (string \<times> rat) list" where
  "sql_group_sum key rows =
     map (\<lambda>k. (k, sum_list (map cost (filter (\<lambda>g. key g = k) rows)))) (remdups (map key rows))"

text \<open>The loop \<open>for (const row of result[0].values) obj[row[0]] = row[1]\<close> on a fresh object.\<close>

fun assign_rows :: "(string \<times> rat) list \<Rightarrow> (string \<times> rat) list \<Rightarrow> (string \<times> rat) list" where
  "assign_rows obj [] = obj"
| "assign_rows obj ((k, v) # rows) = assign_rows (AList.update k v obj) rows"

definition getCosts :: "string option \<Rightarrow> GenerationStore \<Rightarrow> error + CostSummary" where
  "getCosts since store =
     (case ensureInit store of
        Inl e \<Rightarrow> Inl e
      | Inr db \<Rightarrow>
          let rows = sql_where since (generations db);
              totalResult = [(coalesce (sql_sum (map cost rows)) 0, length rows)];
              tot = (case totalResult of [] \<Rightarrow> (0, 0) | r # _ \<Rightarrow> r);
              providerResult = sql_group_sum provider rows;
              modelResult = sql_group_sum model rows
          in Inr \<lparr>total_cost = fst tot,
                  by_provider = assign_rows [] providerResult,
                  by_model = assign_rows [] modelResult,
                  generation_count = snd tot\<rparr>)"

text \<open>\<open>rowToGeneration\<close> copies the columns into an object without \<open>images\<close>.\<close>

definition rowToGeneration :: "GenerationRow \<Rightarrow> Generation" where
  "rowToGeneration r = GenerationRow.extend r (Generation.fields None)"

definition select_images :: "string \<Rightarrow> ledger \<Rightarrow> GenerationImage list" where
  "select_images gid db = sort_key index_num (filter (\<lambda>i. generation_id i = gid) (image_rows db))"

definition getGeneration :: "string \<Rightarrow> GenerationStore \<Rightarrow> error + Generation option" where
  "getGeneration gid store =
     (case ensureInit store of
        Inl e \<Rightarrow> Inl e
      | Inr db \<Rightarrow>
          (case filter (\<lambda>g. id_gen g = gid) (generations db) of
             [] \<Rightarrow> Inr None
           | r # _ \<Rightarrow>
               let gen = rowToGeneration r;
                   imgResult = select_images gid db
               in Inr (Some (if imgResult \<noteq> [] then gen\<lparr>images := Some imgResult\<rparr> else gen))))"

text \<open>\<open>UPDATE generations SET ... WHERE id = ?\<close>; the timestamp is the caller's clock.\<close>

definition markSelected ::
    "string \<Rightarrow> int \<Rightarrow> string \<Rightarrow> string \<Rightarrow> string \<Rightarrow> GenerationStore \<Rightarrow> error + GenerationStore" where
  "markSelected gid idx storageKey publicUrl now_iso store =
     (case ensureInit store of
        Inl e \<Rightarrow> Inl e
      | Inr db \<Rightarrow>
          Inr (Some (db\<lparr>generations :=
            map (\<lambda>g. if id_gen g = gid
                      then g\<lparr>selected_index := Some idx, selected_at := Some now_iso,
                             storage_key := Some storageKey, public_url := Some publicUrl\<rparr>
                      else g)
                (generations db)\<rparr>)))"

text \<open>\<open>x || null\<close> on an optional string: the empty string is falsy.\<close>

definition or_null :: "jsstring option \<Rightarrow> jsstring option" where
  "or_null x = (case x of None \<Rightarrow> None | Some s \<Rightarrow> (if s = [] then None else Some s))"

text \<open>\<open>createGeneration\<close>: the id is \<open>randomUUID()\<close> and the timestamp the clock's, both
  given by the caller here. The primary key rejects an id that is already stored.\<close>

definition createGeneration ::
    "Generation \<Rightarrow> string \<Rightarrow> string \<Rightarrow> GenerationStore \<Rightarrow> error + (Generation \<times> GenerationStore)" where
  "createGeneration data uuid now_iso store =
     (case ensureInit store of
        Inl e \<Rightarrow> Inl e
      | Inr db \<Rightarrow>
          if uuid \<in> set (map id_gen (generations db)) then Inl SqlConstraintFailed
          else
            let row = (GenerationRow.truncate data)
                        \<lparr>id_gen := uuid,
                         negative_prompt := or_null (negative_prompt data),
                         context_hint := or_null (context_hint data),
                         created_at := now_iso\<rparr>;
                imgs = (case images data of None \<Rightarrow> [] | Some xs \<Rightarrow> xs);
                rows = map (\<lambda>img. img\<lparr>generation_id := uuid\<rparr>) imgs
            in Inr (data\<lparr>id_gen := uuid, created_at := now_iso\<rparr>,
                    Some (db\<lparr>generations := generations db @ [row],
                             image_rows := image_rows db @ rows\<rparr>)))"

text \<open>A row is inside the window of a cost query when the query has no lower bound or the
  row's creation timestamp is not before it.\<close>

definition in_window :: "string option \<Rightarrow> GenerationRow \<Rightarrow> bool" where
  "in_window since g = (case since of None \<Rightarrow> True | Some bound \<Rightarrow> text_le bound (created_at g))"


section \<open>Strings and numbers as JavaScript renders them\<close>

text \<open>\<open>String.prototype.startsWith\<close> and \<open>str_includes\<close>.\<close>

definition startsWith :: "'a list \<Rightarrow> 'a list \<Rightarrow> bool" where
  "startsWith s pre = (take (length pre) s = pre)"

fun str_includes :: "'a list \<Rightarrow> 'a list \<Rightarrow> bool" where
  "str_includes [] sub = (sub = [])"
| "str_includes (c # cs) sub = (startsWith (c # cs) sub \<or> str_includes cs sub)"

text \<open>\<open>s.slice(0, n)\<close>: a negative \<open>n\<close> counts from the end of the string.\<close>

definition slice0 :: "int \<Rightarrow> 'a list \<Rightarrow> 'a list" where
  "slice0 n s = (if 0 \<le> n then take (nat n) s else take (length s - nat (- n)) s)"

text \<open>Decimal rendering of an integer (\<open>Number.prototype.toString\<close> on an integer below
  \<open>10^21\<close>) and \<open>padStart\<close>.\<close>

definition digit_char :: "int \<Rightarrow> char" where
  "digit_char d = char_of (48 + d)"

function show_dec :: "int \<Rightarrow> string" where
  "show_dec n = (if n < 10 then [digit_char n] else show_dec (n div 10) @ [digit_char (n mod 10)])"
  by pat_completeness auto
termination
  by (relation "measure nat") auto

declare show_dec.simps [simp del]

definition show_int :: "int \<Rightarrow> string" where
  "show_int i = (if i < 0 then CHR ''-'' # show_dec (- i) else show_dec i)"


definition padStart :: "nat \<Rightarrow> char \<Rightarrow> string \<Rightarrow> string" where
  "padStart n c s = replicate (n - length s) c @ s"

text \<open>\<open>String.prototype.replace\<close> with a string pattern: only the first occurrence is
  replaced, and the replacement text is read for the patterns \<open>$$\<close>, \<open>$&\<close>, \<open>$`\<close> and
  \<open>$'\<close> (there are no capture groups, so \<open>$1\<close> stays as it is).\<close>

fun index_of :: "string \<Rightarrow> string \<Rightarrow> nat option" where
  "index_of [] pat = (if pat = [] then Some 0 else None)"
| "index_of (c # cs) pat =
     (if startsWith (c # cs) pat then Some 0 else map_option Suc (index_of cs pat))"



section \<open>Path templater and header sanitizer (storage/base.ts)\<close>

text \<open>The local calendar fields of \<open>new Date()\<close> that the templater reads.\<close>

record JsDate =
  getFullYear :: int
  getMonth :: int
  getDate :: int


text \<open>The spec's reading of the templater, for comparison: one left-to-right pass that
  replaces every occurrence of each of the four tokens and copies the filename as it is.\<close>

function expand_every :: "JsDate \<Rightarrow> string \<Rightarrow> string \<Rightarrow> string" where
  "expand_every now [] filename = []"
| "expand_every now (c # cs) filename =
     (if startsWith (c # cs) ''{year}''
        then show_int (getFullYear now) @ expand_every now (drop 5 cs) filename
      else if startsWith (c # cs) ''{month}''
        then padStart 2 CHR ''0'' (show_int (getMonth now + 1)) @ expand_every now (drop 6 cs) filename
      else if startsWith (c # cs) ''{day}''
        then padStart 2 CHR ''0'' (show_int (getDate now)) @ expand_every now (drop 4 cs) filename
      else if startsWith (c # cs) ''{filename}''
        then filename @ expand_every now (drop 9 cs) filename
      else c # expand_every now cs filename)"
  by pat_completeness auto
termination
  by (relation "measure (\<lambda>(now, t, f). length t)") auto


text \<open>The regular-expression classes of the sanitizer, on UTF-16 code units: \<open>\s\<close> (also
  what \<open>trim\<close> removes) and the printable ASCII range.\<close>

definition is_ws :: "16 word \<Rightarrow> bool" where
  "is_ws c = (c = 0x09 \<or> c = 0x0A \<or> c = 0x0B \<or> c = 0x0C \<or> c = 0x0D \<or> c = 0x20
     \<or> c = 0xA0 \<or> c = 0x1680 \<or> (0x2000 \<le> c \<and> c \<le> 0x200A)
     \<or> c = 0x2028 \<or> c = 0x2029 \<or> c = 0x202F \<or> c = 0x205F \<or> c = 0x3000 \<or> c = 0xFEFF)"

definition printable :: "16 word \<Rightarrow> bool" where
  "printable c = (0x20 \<le> c \<and> c \<le> 0x7E)"

text \<open>\<open>s.replace(/[...]/g, r)\<close> for a class of single code units.\<close>

definition replace_class :: "(16 word \<Rightarrow> bool) \<Rightarrow> jsstring \<Rightarrow> jsstring \<Rightarrow> jsstring" where
  "replace_class cls r s = concat (map (\<lambda>c. if cls c then r else [c]) s)"

text \<open>\<open>s.replace(/\s+/g, ' ')\<close>: the flag says whether the previous unit was whitespace.\<close>

fun collapse_ws :: "bool \<Rightarrow> jsstring \<Rightarrow> jsstring" where
  "collapse_ws in_run [] = []"
| "collapse_ws in_run (c # cs) =
     (if is_ws c then (if in_run then collapse_ws True cs else 0x20 # collapse_ws True cs)
      else c # collapse_ws False cs)"

definition trim :: "jsstring \<Rightarrow> jsstring" where
  "trim s = rev (dropWhile is_ws (rev (dropWhile is_ws s)))"

definition sanitizeForHeader :: "jsstring \<Rightarrow> int \<Rightarrow> jsstring" where
  "sanitizeForHeader txt maxLength =
     slice0 maxLength
       (trim
         (collapse_ws False
           (replace_class (\<lambda>c. \<not> printable c) []
             (replace_class (\<lambda>c. c = 0x00B7) (ascii ''-'')
               (replace_class (\<lambda>c. c = 0x2022 \<or> c = 0x2023 \<or> c = 0x25E6) (ascii ''*'')
                 (replace_class (\<lambda>c. c = 0x00A0) (ascii '' '')
                   (replace_class (\<lambda>c. c = 0x2026) (ascii ''...'')
                     (replace_class (\<lambda>c. c = 0x2013) (ascii ''-'')
                       (replace_class (\<lambda>c. c = 0x2014) (ascii ''--'')
                         (replace_class (\<lambda>c. c = 0x201C \<or> c = 0x201D) [0x22]
                           (replace_class (\<lambda>c. c = 0x2018 \<or> c = 0x2019) [0x27]
                             (replace_class (\<lambda>c. c = 0x09 \<or> c = 0x0A \<or> c = 0x0D) (ascii '' '')
                               txt))))))))))))"

text \<open>The default \<open>maxLength = 500\<close>.\<close>

definition sanitizeForHeader_default :: "jsstring \<Rightarrow> jsstring" where
  "sanitizeForHeader_default txt = sanitizeForHeader txt 500"

text \<open>What the sanitizer leaves behind: every whitespace unit is a space and no two stand
  side by side (\<open>tidy\<close>); \<open>clean\<close> adds printable ASCII only and no space at either end.\<close>

fun tidy :: "jsstring \<Rightarrow> bool" where
  "tidy [] = True"
| "tidy [c] = (is_ws c \<longrightarrow> c = 0x20)"
| "tidy (a # b # cs) = ((is_ws a \<longrightarrow> a = 0x20 \<and> \<not> is_ws b) \<and> tidy (b # cs))"

definition clean :: "jsstring \<Rightarrow> bool" where
  "clean r = ((\<forall>c \<in> set r. printable c) \<and> tidy r \<and> (r = [] \<or> (hd r \<noteq> 0x20 \<and> last r \<noteq> 0x20)))"








section \<open>The local filesystem (node:fs and node:path)\<close>

text \<open>
  The preview area lives on the local disk. The filesystem is a table from normalised
  absolute paths to nodes; a directory's entries are the paths one segment below it.
  Each function is the synchronous call of \<open>node:fs\<close> with that name and returns the error
  it would throw. Modification times of parent directories are not tracked.
\<close>

type_synonym bytes = "8 word list"

datatype node = File (mtimeMs: int) (content: bytes) | Dir (mtimeMs: int)

type_synonym fs = "(string \<times> node) list"

definition existsSync :: "string \<Rightarrow> fs \<Rightarrow> bool" where
  "existsSync p disk = (map_of disk p \<noteq> None)"


definition readFileSync :: "string \<Rightarrow> fs \<Rightarrow> error + bytes" where
  "readFileSync p disk =
     (case map_of disk p of
        None \<Rightarrow> Inl (FsError ENOENT p)
      | Some (Dir t) \<Rightarrow> Inl (FsError EISDIR p)
      | Some (File t b) \<Rightarrow> Inr b)"

definition unlinkSync :: "string \<Rightarrow> fs \<Rightarrow> error + fs" where
  "unlinkSync p disk =
     (case map_of disk p of
        None \<Rightarrow> Inl (FsError ENOENT p)
      | Some (Dir t) \<Rightarrow> Inl (FsError EISDIR p)
      | Some (File t b) \<Rightarrow> Inr (AList.delete p disk))"



text \<open>\<open>path.join(dir, name)\<close> for a normalised directory and a plain entry name.\<close>

definition path_join :: "string \<Rightarrow> string \<Rightarrow> string" where
  "path_join d e = d @ ''/'' @ e"

definition is_child :: "string \<Rightarrow> string \<Rightarrow> bool" where
  "is_child d p =
     (take (length d + 1) p = d @ ''/''
      \<and> drop (length d + 1) p \<noteq> []
      \<and> CHR ''/'' \<notin> set (drop (length d + 1) p))"

definition child_names :: "string \<Rightarrow> fs \<Rightarrow> string list" where
  "child_names d disk =
     remdups (map (drop (length d + 1)) (filter (is_child d) (map fst disk)))"


definition rmdirSync :: "string \<Rightarrow> fs \<Rightarrow> error + fs" where
  "rmdirSync d disk =
     (case map_of disk d of
        None \<Rightarrow> Inl (FsError ENOENT d)
      | Some (File t b) \<Rightarrow> Inl (FsError ENOTDIR d)
      | Some (Dir t) \<Rightarrow>
          if child_names d disk = [] then Inr (AList.delete d disk)
          else Inl (FsError ENOTEMPTY d))"

text \<open>\<open>path.dirname\<close> (POSIX): the part before the last separator that is followed by a
  segment; the separator at index 0 is not looked at.\<close>

definition path_dirname :: "string \<Rightarrow> string" where
  "path_dirname p =
     (if p = [] then ''.''
      else
        let hasRoot = (hd p = CHR ''/'');
            ends = filter (\<lambda>i. p ! i = CHR ''/'' \<and> filter (\<lambda>c. c \<noteq> CHR ''/'') (drop (Suc i) p) \<noteq> [])
                     [1 ..< length p]
        in if ends = [] then (if hasRoot then ''/'' else ''.'')
           else if hasRoot \<and> last ends = 1 then ''//''
           else take (last ends) p)"

text \<open>\<open>mkdirSync(d, {recursive: true})\<close> creates \<open>d\<close> and every missing ancestor;
  \<open>writeFileSync\<close> needs the parent directory.\<close>

definition ancestors :: "string \<Rightarrow> string list" where
  "ancestors d = map (\<lambda>i. take i d) (filter (\<lambda>i. d ! i = CHR ''/'') [1 ..< length d]) @ [d]"

fun mkdir_each :: "string list \<Rightarrow> int \<Rightarrow> fs \<Rightarrow> error + fs" where
  "mkdir_each [] now disk = Inr disk"
| "mkdir_each (a # as) now disk =
     (case map_of disk a of
        None \<Rightarrow> mkdir_each as now (disk @ [(a, Dir now)])
      | Some (Dir t) \<Rightarrow> mkdir_each as now disk
      | Some (File t b) \<Rightarrow> Inl (FsError (if as = [] then EEXIST else ENOTDIR) a))"

definition mkdirSync_recursive :: "string \<Rightarrow> int \<Rightarrow> fs \<Rightarrow> error + fs" where
  "mkdirSync_recursive d now disk = mkdir_each (ancestors d) now disk"

definition writeFileSync :: "string \<Rightarrow> bytes \<Rightarrow> int \<Rightarrow> fs \<Rightarrow> error + fs" where
  "writeFileSync p b now disk =
     (case map_of disk (path_dirname p) of
        None \<Rightarrow> Inl (FsError ENOENT p)
      | Some (File t0 b0) \<Rightarrow> Inl (FsError ENOTDIR p)
      | Some (Dir t0) \<Rightarrow>
          (case map_of disk p of
             Some (Dir t) \<Rightarrow> Inl (FsError EISDIR p)
           | _ \<Rightarrow> Inr (AList.update p (File now b) disk)))"


section \<open>Selection workflow (tools/select.ts)\<close>

record SelectArgs =
  sel_generation_id :: string
  sel_index :: int
  sel_filename :: "string option"
  cleanup_others :: "bool option"

record UploadOptions =
  buffer_up :: bytes
  filename_up :: string
  contentType :: string
  metadata :: "(string \<times> jsstring) list"

record UploadResult =
  key_up :: string
  publicUrl_up :: string
  size_up :: nat

text \<open>What \<open>selectImage\<close> takes from outside: the blob store behind the StorageProvider
  interface, the clock, and the runtime's \<open>toLowerCase\<close>.\<close>

record SelectEnv =
  upload_blob :: "UploadOptions \<Rightarrow> error + UploadResult"
  clock_ms :: int
  clock_iso :: string
  lower_case :: "jsstring \<Rightarrow> jsstring"

text \<open>\<open>xs[i]\<close> on a JavaScript array with an integer \<open>i\<close>: \<open>undefined\<close> outside the array.\<close>

definition array_get :: "'a list \<Rightarrow> int \<Rightarrow> 'a option" where
  "array_get xs i = (if 0 \<le> i \<and> i < int (length xs) then Some (xs ! nat i) else None)"

definition readLocalImage :: "string \<Rightarrow> fs \<Rightarrow> error + bytes" where
  "readLocalImage filePath disk =
     (if \<not> existsSync filePath disk then Inl (PreviewFileNotFound filePath)
      else readFileSync filePath disk)"

definition isLocalPath :: "string \<Rightarrow> bool" where
  "isLocalPath p =
     (\<not> startsWith p ''http://'' \<and> \<not> startsWith p ''https://'' \<and> \<not> startsWith p ''data:'')"

text \<open>The slug of the prompt: \<open>.replace(/[^a-z0-9]+/g, '-')\<close>, \<open>.slice(0, 50)\<close> and
  \<open>.replace(/-+$/, '')\<close>.\<close>

definition slug_char :: "16 word \<Rightarrow> bool" where
  "slug_char c = ((0x61 \<le> c \<and> c \<le> 0x7A) \<or> (0x30 \<le> c \<and> c \<le> 0x39))"

fun dash_runs :: "bool \<Rightarrow> jsstring \<Rightarrow> jsstring" where
  "dash_runs in_run [] = []"
| "dash_runs in_run (c # cs) =
     (if slug_char c then c # dash_runs False cs
      else if in_run then dash_runs True cs
      else 0x2D # dash_runs True cs)"

definition slugify :: "(jsstring \<Rightarrow> jsstring) \<Rightarrow> jsstring \<Rightarrow> string" where
  "slugify lower p =
     map (\<lambda>c. char_of (unat c))
       (rev (dropWhile (\<lambda>c. c = 0x2D) (rev (take 50 (dash_runs False (lower p))))))"

text \<open>The cleanup loop over \<open>generation.images\<close>. \<open>attempted\<close> is an observation that the
  JSON payload does not carry: the paths for which the deleting branch was entered.\<close>

record Cleanup =
  disk_of :: fs
  deletedPreviews :: "string list"
  retainedPreviews :: "string list"
  previewDir_of :: "string option"
  attempted :: "string list"
  logged :: "string list"

fun cleanup_loop :: "bool \<Rightarrow> int \<Rightarrow> GenerationImage list \<Rightarrow> Cleanup \<Rightarrow> Cleanup" where
  "cleanup_loop cleanupOthers idx [] st = st"
| "cleanup_loop cleanupOthers idx (img # imgs) st =
     (if \<not> isLocalPath (preview_url img) then cleanup_loop cleanupOthers idx imgs st
      else
        let st1 = (if previewDir_of st = None
                   then st\<lparr>previewDir_of := Some (path_dirname (preview_url img))\<rparr> else st)
        in if cleanupOthers \<or> index_num img = idx then
             (let st2 = st1\<lparr>attempted := attempted st1 @ [preview_url img]\<rparr>
              in if existsSync (preview_url img) (disk_of st2) then
                   (case unlinkSync (preview_url img) (disk_of st2) of
                      Inr disk' \<Rightarrow>
                        cleanup_loop cleanupOthers idx imgs
                          (st2\<lparr>disk_of := disk',
                               deletedPreviews := deletedPreviews st2 @ [preview_url img]\<rparr>)
                    | Inl e \<Rightarrow>
                        cleanup_loop cleanupOthers idx imgs
                          (st2\<lparr>logged := logged st2 @ [preview_url img]\<rparr>))
                 else cleanup_loop cleanupOthers idx imgs st2)
           else cleanup_loop cleanupOthers idx imgs
                  (st1\<lparr>retainedPreviews := retainedPreviews st1 @ [preview_url img]\<rparr>))"

text \<open>Removing the preview directory: any error is swallowed.\<close>

definition try_rmdir :: "string \<Rightarrow> fs \<Rightarrow> fs" where
  "try_rmdir d disk = (case rmdirSync d disk of Inr disk' \<Rightarrow> disk' | Inl e \<Rightarrow> disk)"

text \<open>\<open>selectImage\<close>. The guard tests \<open>!generation.images || args.index >= length\<close>;
  \<open>generation.images[args.index]\<close> is then read, and reading \<open>preview_url\<close> of
  \<open>undefined\<close> throws a TypeError. Nothing is written before \<open>markSelected\<close>, so a
  failing call leaves the ledger and the disk as they were.\<close>

record SelectPayload =
  permanent_url :: string
  storage_key_out :: string
  size_bytes :: nat
  markdown :: jsstring
  deleted_previews :: nat
  retained_previews :: "string list"
  delete_attempts :: "string list"

definition selectImage ::
    "SelectArgs \<Rightarrow> SelectEnv \<Rightarrow> GenerationStore \<Rightarrow> fs
       \<Rightarrow> error + (SelectPayload \<times> GenerationStore \<times> fs)" where
  "selectImage args env store disk =
     (let cleanupOthers = (cleanup_others args \<noteq> Some False) in
      case getGeneration (sel_generation_id args) store of
        Inl e \<Rightarrow> Inl e
      | Inr None \<Rightarrow> Inl (GenerationNotFound (sel_generation_id args))
      | Inr (Some generation) \<Rightarrow>
          (case images generation of
             None \<Rightarrow> Inl (InvalidImageIndex (sel_index args))
           | Some imgs \<Rightarrow>
               if sel_index args \<ge> int (length imgs) then Inl (InvalidImageIndex (sel_index args))
               else
                 (case array_get imgs (sel_index args) of
                    None \<Rightarrow> Inl TypeError
                  | Some selectedImage \<Rightarrow>
                 (case readLocalImage (preview_url selectedImage) disk of
                    Inl e \<Rightarrow> Inl e
                  | Inr buf \<Rightarrow>
                      let slug = slugify (lower_case env) (prompt generation);
                          ext = (if str_includes (preview_url selectedImage) ''.png''
                                 then ''png'' else ''jpg'');
                          fname = (case sel_filename args of
                                     Some f \<Rightarrow> if f \<noteq> [] then f
                                               else slug @ ''-'' @ show_int (clock_ms env) @ ''.'' @ ext
                                   | None \<Rightarrow> slug @ ''-'' @ show_int (clock_ms env) @ ''.'' @ ext)
                      in
                      (case upload_blob env
                              \<lparr>buffer_up = buf, filename_up = fname,
                               contentType = (if ext = ''png'' then ''image/png'' else ''image/jpeg''),
                               metadata = [(''generation_id'', ascii (sel_generation_id args)),
                                           (''prompt'', sanitizeForHeader_default (prompt generation))]\<rparr> of
                         Inl e \<Rightarrow> Inl e
                       | Inr uploadResult \<Rightarrow>
                           (case markSelected (sel_generation_id args) (sel_index args)
                                   (key_up uploadResult) (publicUrl_up uploadResult) (clock_iso env) store of
                              Inl e \<Rightarrow> Inl e
                            | Inr store' \<Rightarrow>
                                let st = cleanup_loop cleanupOthers (sel_index args) imgs
                                           \<lparr>disk_of = disk, deletedPreviews = [],
                                            retainedPreviews = [], previewDir_of = None,
                                            attempted = [], logged = []\<rparr>;
                                    disk' = (case previewDir_of st of
                                               Some d \<Rightarrow> if cleanupOthers then try_rmdir d (disk_of st)
                                                         else disk_of st
                                             | None \<Rightarrow> disk_of st);
                                    altText = (case context_hint generation of
                                                 Some c \<Rightarrow> if c \<noteq> [] then c else take 100 (prompt generation)
                                               | None \<Rightarrow> take 100 (prompt generation))
                                in Inr (\<lparr>permanent_url = publicUrl_up uploadResult,
                                         storage_key_out = key_up uploadResult,
                                         size_bytes = size_up uploadResult,
                                         markdown = ascii ''!['' @ altText @ ascii '']('' 
                                                    @ ascii (publicUrl_up uploadResult) @ ascii '')'',
                                         deleted_previews = length (deletedPreviews st),
                                         retained_previews = retainedPreviews st,
                                         delete_attempts = attempted st\<rparr>,
                                        store', disk')))))))"




section \<open>Retention sweeper (tools/cleanup.ts)\<close>


text \<open>The fields of the configuration (config/loader.ts) that the workflows read.\<close>

record Config =
  local_preview_dir :: "string option"
  auto_cleanup_days :: int
  default_count :: int
  default_aspect_ratio :: string
  monthly_limit :: rat
  alert_threshold :: rat












section \<open>Generation workflow (tools/generate.ts)\<close>

text \<open>The provider interface (providers/base.ts).\<close>

record GenerateOptions =
  opt_prompt :: jsstring
  opt_negative_prompt :: "jsstring option"
  opt_count :: int
  opt_aspect_ratio :: string

record GeneratedImage =
  index_g :: int
  url :: string
  width_g :: int
  height_g :: int
  seed_g :: "int option"

record GenerateResult =
  result_images :: "GeneratedImage list"
  model_used :: string
  result_cost :: rat
  result_provider :: string

record GenerateArgs =
  arg_prompt :: jsstring
  arg_negative_prompt :: "jsstring option"
  arg_count :: "int option"
  arg_aspect_ratio :: "string option"
  arg_context :: "jsstring option"

text \<open>What \<open>generateImages\<close> takes from outside: the provider, \<open>Date.now()\<close> and the
  random suffix of the preview directory, \<open>randomUUID()\<close> and the two timestamps the ledger
  sees (creation time, start of the month), base64 decoding, and the renderings of a
  number that are not decimal digits with a fixed number of places.\<close>

record GenerateEnv =
  provider_generate :: "GenerateOptions \<Rightarrow> error + GenerateResult"
  gen_now :: int
  random_suffix :: string
  random_uuid :: string
  created_iso :: string
  month_start_iso :: string
  base64 :: "string \<Rightarrow> bytes"
  number_to_string :: "rat \<Rightarrow> string"

text \<open>\<open>dataUrlToBuffer\<close>: the regular expression \<open>^data:(image\/\w+);base64,(.+)$\<close>. The
  class \<open>\w\<close> is letters, digits and underscore; \<open>.\<close> is any character but a line
  terminator.\<close>

definition word_char :: "char \<Rightarrow> bool" where
  "word_char c =
     (let n = (of_char c :: nat)
      in (65 \<le> n \<and> n \<le> 90) \<or> (97 \<le> n \<and> n \<le> 122) \<or> (48 \<le> n \<and> n \<le> 57) \<or> n = 95)"

definition line_terminator :: "char \<Rightarrow> bool" where
  "line_terminator c = (c = CHR 0x0A \<or> c = CHR 0x0D)"

definition dataUrlToBuffer :: "(string \<Rightarrow> bytes) \<Rightarrow> string \<Rightarrow> (string \<times> bytes) option" where
  "dataUrlToBuffer decode dataUrl =
     (if \<not> startsWith dataUrl ''data:'' then None
      else
        let rest = drop 5 dataUrl in
        if \<not> startsWith rest ''image/'' then None
        else
          let subtype = takeWhile word_char (drop 6 rest);
              after = dropWhile word_char (drop 6 rest)
          in if subtype = [] \<or> \<not> startsWith after '';base64,'' then None
             else
               let payload = drop 8 after in
               if payload = [] \<or> list_ex line_terminator payload then None
               else Some (''image/'' @ subtype, decode payload))"

record SavedImage =
  saved_index :: int
  localPath :: string
  saved_width :: int
  saved_height :: int
  saved_seed :: "int option"

definition preview_path :: "string \<Rightarrow> int \<Rightarrow> string \<Rightarrow> string" where
  "preview_path generationDir idx mimeType =
     path_join generationDir
       (show_int idx @ ''.'' @ (if mimeType = ''image/jpeg'' then ''jpg'' else ''png''))"

text \<open>The loop over \<open>result.images\<close>. An image whose URL is not a data URL is skipped
  (\<open>continue\<close>); a failing write throws out of the loop, with the files written so far
  left on the disk.\<close>

fun save_previews ::
    "(string \<Rightarrow> bytes) \<Rightarrow> string \<Rightarrow> int \<Rightarrow> GeneratedImage list \<Rightarrow> SavedImage list \<Rightarrow> fs
       \<Rightarrow> (error + SavedImage list) \<times> fs" where
  "save_previews decode generationDir now [] savedImages disk = (Inr savedImages, disk)"
| "save_previews decode generationDir now (img # imgs) savedImages disk =
     (case dataUrlToBuffer decode (url img) of
        None \<Rightarrow> save_previews decode generationDir now imgs savedImages disk
      | Some (mimeType, buf) \<Rightarrow>
          (case writeFileSync (preview_path generationDir (index_g img) mimeType) buf now disk of
             Inl e \<Rightarrow> (Inl e, disk)
           | Inr disk' \<Rightarrow>
               save_previews decode generationDir now imgs
                 (savedImages @
                   [\<lparr>saved_index = index_g img,
                     localPath = preview_path generationDir (index_g img) mimeType,
                     saved_width = width_g img, saved_height = height_g img,
                     saved_seed = seed_g img\<rparr>])
                 disk'))"

text \<open>JavaScript numbers that are not finite come from the division by a zero limit.\<close>

datatype jsnum = Finite rat | PlusInfinity | MinusInfinity | NaN

definition js_divide :: "rat \<Rightarrow> rat \<Rightarrow> jsnum" where
  "js_divide a b =
     (if b = 0 then (if a = 0 then NaN else if 0 < a then PlusInfinity else MinusInfinity)
      else Finite (a / b))"

definition js_times :: "jsnum \<Rightarrow> rat \<Rightarrow> jsnum" where
  "js_times x k =
     (case x of
        Finite v \<Rightarrow> Finite (v * k)
      | PlusInfinity \<Rightarrow> (if 0 < k then PlusInfinity else if k < 0 then MinusInfinity else NaN)
      | MinusInfinity \<Rightarrow> (if 0 < k then MinusInfinity else if k < 0 then PlusInfinity else NaN)
      | NaN \<Rightarrow> NaN)"

text \<open>\<open>Number.prototype.toFixed(f)\<close>: the integer nearest to \<open>x * 10^f\<close>, the larger one on
  a tie, written with \<open>f\<close> digits after the point; a value of magnitude \<open>10^21\<close> or more is
  rendered as \<open>toString\<close> renders it.\<close>

definition toFixed :: "(rat \<Rightarrow> string) \<Rightarrow> nat \<Rightarrow> jsnum \<Rightarrow> string" where
  "toFixed render f x =
     (case x of
        NaN \<Rightarrow> ''NaN''
      | PlusInfinity \<Rightarrow> ''Infinity''
      | MinusInfinity \<Rightarrow> ''-Infinity''
      | Finite v \<Rightarrow>
          if 10 ^ 21 \<le> \<bar>v\<bar> then render v
          else
            let n = \<lfloor>\<bar>v\<bar> * 10 ^ f + 1 / 2\<rfloor>
            in (if v < 0 then ''-'' else [])
               @ show_dec (n div 10 ^ f)
               @ (if f = 0 then [] else ''.'' @ padStart f CHR ''0'' (show_dec (n mod 10 ^ f))))"

record ImageOut =
  out_index :: int
  out_preview_url :: string
  out_width :: int
  out_height :: int

record GeneratePayload =
  generation_id_out :: string
  images_out :: "ImageOut list"
  cost_out :: rat
  model_used_out :: string
  budget_warning :: "string option"

definition generate_options :: "GenerateArgs \<Rightarrow> Config \<Rightarrow> GenerateOptions" where
  "generate_options args cfg =
     \<lparr>opt_prompt = arg_prompt args,
      opt_negative_prompt = arg_negative_prompt args,
      opt_count = (case arg_count args of Some n \<Rightarrow> n | None \<Rightarrow> default_count cfg),
      opt_aspect_ratio = (case arg_aspect_ratio args of Some a \<Rightarrow> a | None \<Rightarrow> default_aspect_ratio cfg)\<rparr>"

definition generation_data :: "GenerateArgs \<Rightarrow> Config \<Rightarrow> GenerateResult \<Rightarrow> SavedImage list \<Rightarrow> Generation" where
  "generation_data args cfg result savedImages =
     \<lparr>id_gen = [], prompt = arg_prompt args, negative_prompt = arg_negative_prompt args,
      context_hint = arg_context args, model = model_used result, provider = result_provider result,
      count = opt_count (generate_options args cfg),
      aspect_ratio = opt_aspect_ratio (generate_options args cfg),
      cost = result_cost result, created_at = [],
      selected_index = None, selected_at = None, storage_key = None, public_url = None,
      images = Some (map (\<lambda>img. \<lparr>generation_id = [], index_num = saved_index img,
                                     preview_url = localPath img,
                                     width = Some (saved_width img), height = Some (saved_height img),
                                     seed = saved_seed img\<rparr>) savedImages)\<rparr>"

definition budget_message :: "(rat \<Rightarrow> string) \<Rightarrow> rat \<Rightarrow> rat \<Rightarrow> string" where
  "budget_message render total_spent limit =
     ''Budget alert: '' @ toFixed render 1 (js_times (js_divide total_spent limit) 100)
       @ ''% of monthly limit used ($'' @ toFixed render 2 (Finite total_spent)
       @ ''/$'' @ render limit @ '')''"

text \<open>\<open>generateImages\<close>. The ledger and the disk are returned also when the call throws:
  what was written before the failing step stays written.\<close>

definition generateImages ::
    "GenerateArgs \<Rightarrow> Config \<Rightarrow> GenerateEnv \<Rightarrow> GenerationStore \<Rightarrow> fs
       \<Rightarrow> (error + GeneratePayload) \<times> GenerationStore \<times> fs" where
  "generateImages args cfg env store disk =
     (case provider_generate env (generate_options args cfg) of
        Inl e \<Rightarrow> (Inl e, store, disk)
      | Inr result \<Rightarrow>
          (case local_preview_dir cfg of
             None \<Rightarrow> (Inl TypeError, store, disk)
           | Some localPreviewDir \<Rightarrow>
               let generationId = ''gen-'' @ show_int (gen_now env) @ ''-'' @ random_suffix env;
                   generationDir = path_join localPreviewDir generationId
               in
               (case (if \<not> existsSync generationDir disk
                      then mkdirSync_recursive generationDir (gen_now env) disk else Inr disk) of
                  Inl e \<Rightarrow> (Inl e, store, disk)
                | Inr disk1 \<Rightarrow>
                    (case save_previews (base64 env) generationDir (gen_now env)
                            (result_images result) [] disk1 of
                       (Inl e, disk2) \<Rightarrow> (Inl e, store, disk2)
                     | (Inr savedImages, disk2) \<Rightarrow>
                         (case createGeneration (generation_data args cfg result savedImages)
                                 (random_uuid env) (created_iso env) store of
                            Inl e \<Rightarrow> (Inl e, store, disk2)
                          | Inr (generation, store') \<Rightarrow>
                              (case getCosts (Some (month_start_iso env)) store' of
                                 Inl e \<Rightarrow> (Inl e, store', disk2)
                               | Inr costs \<Rightarrow>
                                   let budgetWarning =
                                         (if total_cost costs \<ge> monthly_limit cfg * alert_threshold cfg
                                          then Some (budget_message (number_to_string env)
                                                       (total_cost costs) (monthly_limit cfg))
                                          else None)
                                   in (Inr \<lparr>generation_id_out = id_gen generation,
                                            images_out =
                                              map (\<lambda>img. \<lparr>out_index = saved_index img,
                                                             out_preview_url = localPath img,
                                                             out_width = saved_width img,
                                                             out_height = saved_height img\<rparr>)
                                                  savedImages,
                                            cost_out = result_cost result,
                                            model_used_out = model_used result,
                                            budget_warning = budgetWarning\<rparr>,
                                       store', disk2)))))))"


section \<open>Concrete inputs\<close>

definition row0 :: GenerationRow where
  "row0 = \<lparr>id_gen = ''g1'', prompt = ascii ''a sunset'', negative_prompt = None,
     context_hint = None, model = ''m1'', provider = ''fal'', count = 2,
     aspect_ratio = ''16:9'', cost = 3/100, created_at = ''2025-01-09T10:00:00.000Z'',
     selected_index = None, selected_at = None, storage_key = None, public_url = None\<rparr>"

definition ledger0 :: ledger where
  "ledger0 = \<lparr>generations = [row0], image_rows = []\<rparr>"

definition img0 :: GenerationImage where
  "img0 = \<lparr>generation_id = ''g1'', index_num = 0, preview_url = ''/p/gen-1/0.png'',
            width = Some 1024, height = Some 576, seed = None\<rparr>"

definition img1 :: GenerationImage where
  "img1 = \<lparr>generation_id = ''g1'', index_num = 1, preview_url = ''/p/gen-1/1.png'',
            width = Some 1024, height = Some 576, seed = None\<rparr>"

definition ledger1 :: ledger where
  "ledger1 = \<lparr>generations = [row0], image_rows = [img0, img1]\<rparr>"


definition disk1 :: fs where
  "disk1 = [(''/p'', Dir 0), (''/p/gen-1'', Dir 0),
            (''/p/gen-1/0.png'', File 0 [1]), (''/p/gen-1/1.png'', File 0 [2])]"

definition env0 :: SelectEnv where
  "env0 = \<lparr>upload_blob = (\<lambda>opt. Inr \<lparr>key_up = filename_up opt,
                                         publicUrl_up = ''https://cdn/'' @ filename_up opt,
                                         size_up = length (buffer_up opt)\<rparr>),
            clock_ms = 1700000000000, clock_iso = ''2025-01-09T10:00:05.000Z'',
            lower_case = (\<lambda>s. s)\<rparr>"







section \<open>Properties of the ledger\<close>











text \<open>
  Claim C10. When no generation row lies inside the window of the query (in particular on
  an empty ledger), \<open>getCosts\<close> returns total 0, count 0 and two empty groupings; it
  neither fails nor returns a null total.
\<close>

theorem getCosts_no_match:
  assumes "\<forall>g \<in> set (generations db). \<not> in_window since g"
  shows "getCosts since (Some db)
           = Inr \<lparr>total_cost = 0, by_provider = [], by_model = [], generation_count = 0\<rparr>"
proof -
  have "sql_where since (generations db) = []"
    using assms by (cases since) (auto simp: sql_where_def in_window_def filter_empty_conv)
  then show ?thesis
    by (simp add: getCosts_def ensureInit_def sql_sum_def coalesce_def sql_group_sum_def)
qed

theorem getCosts_no_match_witness:
  "\<not> in_window (Some ''2025-02-01T00:00:00.000Z'') row0
   \<and> getCosts (Some ''2025-02-01T00:00:00.000Z'') (Some ledger0)
        = Inr \<lparr>total_cost = 0, by_provider = [], by_model = [], generation_count = 0\<rparr>"
proof -
  have h0: "\<not> in_window (Some ''2025-02-01T00:00:00.000Z'') row0"
    by (simp add: in_window_def row0_def)
  then have h: "\<forall>g \<in> set (generations ledger0). \<not> in_window (Some ''2025-02-01T00:00:00.000Z'') g"
    by (simp add: ledger0_def)
  show ?thesis using h0 getCosts_no_match [OF h] by blast
qed

text \<open>
  Claim C9. \<open>markSelected\<close> with an id that no generation row carries completes without an
  error and leaves the store as it was: every generation row and every image row is
  unchanged. The ledger does not check that the id exists.
\<close>

theorem markSelected_absent_id:
  assumes "gid \<notin> id_gen ` set (generations db)"
  shows "markSelected gid idx storageKey publicUrl now_iso (Some db) = Inr (Some db)"
proof -
  have "map (\<lambda>g. if id_gen g = gid
                      then g\<lparr>selected_index := Some idx, selected_at := Some now_iso,
                             storage_key := Some storageKey, public_url := Some publicUrl\<rparr>
                      else g) (generations db) = generations db"
    using assms by (intro map_idI) auto
  then show ?thesis by (simp add: markSelected_def ensureInit_def)
qed

theorem markSelected_absent_id_witness:
  "''zz'' \<notin> id_gen ` set (generations ledger0)
   \<and> markSelected ''zz'' 0 ''k'' ''u'' ''t'' (Some ledger0) = Inr (Some ledger0)"
proof -
  have h: "''zz'' \<notin> id_gen ` set (generations ledger0)"
    by (simp add: row0_def ledger0_def)
  show ?thesis using h markSelected_absent_id [OF h] by blast
qed

section \<open>Properties of the header sanitizer\<close>

lemma printable_ws: "printable c \<Longrightarrow> is_ws c \<longleftrightarrow> c = 0x20"
  unfolding printable_def is_ws_def by (auto simp: word_le_nat_alt)

lemma printable_space: "printable 0x20"
  by (simp add: printable_def)

lemma replace_class_nil: "replace_class P [] s = filter (\<lambda>c. \<not> P c) s"
  by (induction s) (auto simp: replace_class_def)

lemma replace_class_id: "\<forall>c \<in> set s. \<not> P c \<Longrightarrow> replace_class P r s = s"
  by (induction s) (auto simp: replace_class_def)

lemma collapse_set: "set (collapse_ws b s) \<subseteq> insert 0x20 (set s)"
  by (induction s arbitrary: b) auto

lemma tidy_tl: "tidy (a # t) \<Longrightarrow> tidy t"
  by (cases t) auto

lemma tidy_Cons: "tidy (a # t) \<longleftrightarrow> (is_ws a \<longrightarrow> a = 0x20 \<and> (t = [] \<or> \<not> is_ws (hd t))) \<and> tidy t"
  by (cases t) auto

lemma collapse_tidy:
  "tidy (collapse_ws b s) \<and> (b \<longrightarrow> collapse_ws b s = [] \<or> \<not> is_ws (hd (collapse_ws b s)))"
proof (induction s arbitrary: b)
  case Nil
  then show ?case by simp
next
  case (Cons c s)
  show ?case
    using Cons.IH [of True] Cons.IH [of False]
    by (auto simp: tidy_Cons is_ws_def)
qed

lemma tidy_fix:
  "tidy t \<Longrightarrow> (b \<longrightarrow> t = [] \<or> \<not> is_ws (hd t)) \<Longrightarrow> collapse_ws b t = t"
proof (induction t arbitrary: b)
  case Nil
  then show ?case by simp
next
  case (Cons c t)
  have t: "tidy t" using Cons.prems(1) by (rule tidy_tl)
  show ?case
  proof (cases "is_ws c")
    case True
    then have nb: "\<not> b" using Cons.prems(2) by auto
    have c: "c = 0x20" and nxt: "t = [] \<or> \<not> is_ws (hd t)"
      using Cons.prems(1) True by (auto simp: tidy_Cons)
    have "collapse_ws True t = t" using Cons.IH [OF t, of True] nxt by simp
    then show ?thesis using True nb c by simp
  next
    case False
    have "collapse_ws False t = t" using Cons.IH [OF t, of False] by simp
    then show ?thesis using False by simp
  qed
qed

lemma tidy_take: "tidy t \<Longrightarrow> tidy (take k t)"
proof (induction t arbitrary: k)
  case Nil
  then show ?case by simp
next
  case (Cons a t)
  show ?case
  proof (cases k)
    case 0
    then show ?thesis by simp
  next
    case (Suc j)
    have "tidy (take j t)" using Cons.IH [of j] Cons.prems tidy_tl by blast
    moreover have "take j t = [] \<or> hd (take j t) = hd t"
      by (cases j; cases t) auto
    moreover have "take j t \<noteq> [] \<Longrightarrow> t \<noteq> []" by auto
    ultimately show ?thesis using Cons.prems Suc by (auto simp: tidy_Cons)
  qed
qed

lemma tidy_dropWhile: "tidy t \<Longrightarrow> tidy (dropWhile P t)"
  by (induction t) (auto dest: tidy_tl)

lemma rev_dropWhile_rev: "rev (dropWhile P (rev xs)) = take (length xs - length (takeWhile P (rev xs))) xs"
proof -
  have "rev xs = takeWhile P (rev xs) @ dropWhile P (rev xs)" by simp
  then have "xs = rev (dropWhile P (rev xs)) @ rev (takeWhile P (rev xs))"
    by (metis rev_append rev_rev_ident)
  then show ?thesis
    by (metis append_eq_conv_conj length_rev length_append add_diff_cancel_right')
qed

lemma trim_take: "\<exists>k. trim s = take k (dropWhile is_ws s)"
  unfolding trim_def using rev_dropWhile_rev by blast

lemma tidy_trim: "tidy t \<Longrightarrow> tidy (trim t)"
  using trim_take [of t] tidy_take tidy_dropWhile by metis

lemma trim_set: "set (trim s) \<subseteq> set s"
proof -
  obtain k where "trim s = take k (dropWhile is_ws s)" using trim_take by blast
  then show ?thesis
    by (metis set_take_subset set_dropWhileD subsetI subset_trans)
qed

lemma trim_hd: "trim s = [] \<or> \<not> is_ws (hd (trim s))"
proof -
  obtain k where k: "trim s = take k (dropWhile is_ws s)" using trim_take by blast
  show ?thesis
  proof (cases "trim s = []")
    case True
    then show ?thesis by simp
  next
    case False
    then have ne: "dropWhile is_ws s \<noteq> []" and k0: "k \<noteq> 0" using k by auto
    then have "hd (trim s) = hd (dropWhile is_ws s)" using k by (cases k; cases "dropWhile is_ws s") auto
    then show ?thesis using ne hd_dropWhile by metis
  qed
qed

lemma trim_id:
  assumes "s = [] \<or> (\<not> is_ws (hd s) \<and> \<not> is_ws (last s))"
  shows "trim s = s"
proof (cases s)
  case Nil
  then show ?thesis by (simp add: trim_def)
next
  case (Cons a t)
  then have h: "\<not> is_ws (hd s)" and l: "\<not> is_ws (last s)" using assms by auto
  have 1: "dropWhile is_ws s = s" using h Cons by simp
  have "rev s \<noteq> []" "hd (rev s) = last s" using Cons by (auto simp: hd_rev)
  then have 2: "dropWhile is_ws (rev s) = rev s" using l
    by (metis dropWhile.simps(2) list.collapse)
  show ?thesis by (simp add: trim_def 1 2)
qed

lemma printable_not_class:
  assumes "printable c"
  shows "c \<noteq> 0x09" "c \<noteq> 0x0A" "c \<noteq> 0x0D" "c \<noteq> 0x2018" "c \<noteq> 0x2019" "c \<noteq> 0x201C" "c \<noteq> 0x201D"
    "c \<noteq> 0x2014" "c \<noteq> 0x2013" "c \<noteq> 0x2026" "c \<noteq> 0x00A0" "c \<noteq> 0x2022" "c \<noteq> 0x2023" "c \<noteq> 0x25E6"
    "c \<noteq> 0x00B7"
  using assms unfolding printable_def by auto

lemma sanitize_clean:
  assumes "clean r" "0 \<le> n" "length r \<le> nat n"
  shows "sanitizeForHeader r n = r"
proof -
  have p: "\<forall>c \<in> set r. printable c" and t: "tidy r"
    and e: "r = [] \<or> (hd r \<noteq> 0x20 \<and> last r \<noteq> 0x20)"
    using assms(1) by (auto simp: clean_def)
  have ends: "r = [] \<or> (\<not> is_ws (hd r) \<and> \<not> is_ws (last r))"
    using e p printable_ws by (cases r) auto
  have c: "collapse_ws False r = r" using tidy_fix [OF t, of False] by simp
  have tr: "trim r = r" using trim_id [OF ends] .
  have sl: "slice0 n r = r" using assms(2,3) by (simp add: slice0_def)
  show ?thesis
    unfolding sanitizeForHeader_def
    using p by (simp add: replace_class_id printable_not_class c tr sl)
qed

lemma sanitize_shape:
  "\<exists>x. sanitizeForHeader s n = slice0 n (trim (collapse_ws False (filter printable x)))"
  unfolding sanitizeForHeader_def replace_class_nil by auto

lemma shaped_clean:
  assumes "0 \<le> n" "r = slice0 n (trim (collapse_ws False (filter printable x)))"
    "r = [] \<or> last r \<noteq> 0x20"
  shows "clean r \<and> length r \<le> nat n"
proof -
  let ?c = "collapse_ws False (filter printable x)"
  have r: "r = take (nat n) (trim ?c)" using assms(1,2) by (simp add: slice0_def)
  have "set r \<subseteq> insert 0x20 (set (filter printable x))"
    using r collapse_set [of False "filter printable x"] trim_set [of ?c] set_take_subset [of "nat n" "trim ?c"]
    by blast
  then have p: "\<forall>c \<in> set r. printable c" using printable_space by auto
  have t: "tidy r" unfolding r using collapse_tidy [of False "filter printable x"] tidy_trim tidy_take by blast
  have h: "r = [] \<or> \<not> is_ws (hd r)"
  proof (cases "r = []")
    case True
    then show ?thesis by simp
  next
    case False
    then have "trim ?c \<noteq> []" "nat n \<noteq> 0" using r by auto
    then have "hd r = hd (trim ?c)" using r by (cases "nat n"; cases "trim ?c") auto
    then show ?thesis using trim_hd [of ?c] \<open>trim ?c \<noteq> []\<close> by auto
  qed
  have "r = [] \<or> hd r \<noteq> 0x20" using h by (auto simp: is_ws_def)
  then have "clean r" using p t assms(3) by (auto simp: clean_def)
  moreover have "length r \<le> nat n" using r by simp
  ultimately show ?thesis by blast
qed


text \<open>
  Claim C4, as amended. For a \<open>maxLength\<close> that is not negative, sanitizing a sanitized
  text returns it unchanged whenever the sanitized text does not end in a space; it ends in
  a space only when the truncation cut it right after one.
\<close>

theorem sanitize_idempotent_unless_cut_at_space:
  assumes "0 \<le> n"
      and "sanitizeForHeader s n = [] \<or> last (sanitizeForHeader s n) \<noteq> 0x20"
  shows "sanitizeForHeader (sanitizeForHeader s n) n = sanitizeForHeader s n"
proof -
  obtain x where x: "sanitizeForHeader s n = slice0 n (trim (collapse_ws False (filter printable x)))"
    using sanitize_shape by blast
  from shaped_clean [OF assms(1) x assms(2)]
  show ?thesis using sanitize_clean assms(1) by blast
qed

theorem sanitize_idempotent_witness:
  "sanitizeForHeader (sanitizeForHeader (ascii ''a  b'' @ [0x2014, 0x09] @ ascii ''cd '') 10) 10
     = ascii ''a b-- cd''"
proof -
  have v: "sanitizeForHeader (ascii ''a  b'' @ [0x2014, 0x09] @ ascii ''cd '') 10 = ascii ''a b-- cd''"
    by code_simp
  have h1: "(0::int) \<le> 10" by simp
  have h2: "sanitizeForHeader (ascii ''a  b'' @ [0x2014, 0x09] @ ascii ''cd '') 10 = []
      \<or> last (sanitizeForHeader (ascii ''a  b'' @ [0x2014, 0x09] @ ascii ''cd '') 10) \<noteq> 0x20"
    unfolding v by (simp add: ascii_def)
  from sanitize_idempotent_unless_cut_at_space [OF h1 h2] show ?thesis unfolding v .
qed


text \<open>
  Claim C4 as stated fails: \<open>sanitize("ab cd", 3)\<close> is \<open>"ab "\<close>, cut after the space, and
  sanitizing that again trims it to \<open>"ab"\<close>.
\<close>

theorem sanitize_not_idempotent:
  "sanitizeForHeader (sanitizeForHeader (ascii ''ab cd'') 3) 3 \<noteq> sanitizeForHeader (ascii ''ab cd'') 3"
  by code_simp

section \<open>Properties of the path templater\<close>


lemma index_of_bound: "index_of s pat = Some i \<Longrightarrow> i \<le> length s"
  by (induction s arbitrary: i) (auto split: if_splits)


lemma startsWith_Nil [simp]: "startsWith s []"
  by (simp add: startsWith_def)


lemma startsWith_empty: "startsWith [] p \<longleftrightarrow> p = []"
  by (auto simp: startsWith_def)

lemma startsWith_append_self: "startsWith (p @ v) p"
  by (simp add: startsWith_def)




















lemma expand_every_other:
  "\<not> startsWith (c # cs) ''{year}'' \<Longrightarrow> \<not> startsWith (c # cs) ''{month}'' \<Longrightarrow>
   \<not> startsWith (c # cs) ''{day}'' \<Longrightarrow> \<not> startsWith (c # cs) ''{filename}'' \<Longrightarrow>
   expand_every now (c # cs) f = c # expand_every now cs f"
  by simp
















section \<open>Properties of the selection workflow\<close>



















text \<open>
  Claim C1 at a negative index. The generation has two images and the index is \<open>-1\<close>:
  the guard lets the call through, \<open>images[-1]\<close> is undefined, and the call ends in a
  TypeError where the claim says InvalidIndex.
\<close>

theorem selectImage_negative_index:
  "selectImage \<lparr>sel_generation_id = ''g1'', sel_index = -1, sel_filename = None, cleanup_others = None\<rparr>
     env0 (Some ledger1) disk1 = Inl TypeError"
  by code_simp

section \<open>Properties of the retention sweeper\<close>



end
